theory Spec2Isabelle
  imports Complex_Main
begin

section \<open>Exceptions\<close>

text \<open>
  The scripts define no exception class of their own. Every failure is a Python or library
  exception that nothing catches (there is no \<^verbatim>\<open>try\<close> in either script), so it
  leaves the function that was running. The constructors name the exception and, for
  \<^verbatim>\<open>OSError\<close>, the library call that raised it.
\<close>

datatype error =
    ValueError
  | IndexError
  | ZeroDivisionError
  | AttributeError
  | OutputParserException
  | GoogleAPICallError
  | OSError_AudioFileClip
  | OSError_TextClip

section \<open>gpt\_langchain.py: sentence generation and flattening\<close>

text \<open>
  One parsed model response: the dictionary with the four keys of the response schemas,
  each holding a list of strings. The field names carry the prefix \<open>item_\<close> because the
  flat rows below use the same four keys for single strings.
\<close>

record item =
  item_german_word :: "string list"
  item_english_word :: "string list"
  item_german_sentence :: "string list"
  item_english_sentence :: "string list"

text \<open>One row of the flat table (and of the table the audio and video script reads).\<close>

record row =
  german_word :: string
  english_word :: string
  german_sentence :: string
  english_sentence :: string


text \<open>Python's \<^verbatim>\<open>xs[i]\<close> for a non-negative index: out of range raises IndexError.\<close>

definition getitem :: "'a list \<Rightarrow> nat \<Rightarrow> error + 'a" where
  "getitem xs i = (if i < length xs then Inr (xs ! i) else Inl IndexError)"

text \<open>
  The dictionary literal of lines 152-157: the four subscripts are evaluated in the order
  written, and the first one out of range raises.
\<close>

definition flat_row :: "item \<Rightarrow> nat \<Rightarrow> error + row" where
  "flat_row it i =
     (case getitem (item_german_word it) i of Inl e \<Rightarrow> Inl e | Inr gw \<Rightarrow>
      case getitem (item_english_word it) i of Inl e \<Rightarrow> Inl e | Inr ew \<Rightarrow>
      case getitem (item_german_sentence it) i of Inl e \<Rightarrow> Inl e | Inr gs \<Rightarrow>
      case getitem (item_english_sentence it) i of Inl e \<Rightarrow> Inl e | Inr es \<Rightarrow>
        Inr \<lparr>german_word = gw, english_word = ew, german_sentence = gs,
             english_sentence = es\<rparr>)"

text \<open>
  The inner loop \<^verbatim>\<open>for i in range(num_entries)\<close>: the list of the remaining indices
  and the rows appended to \<^verbatim>\<open>flat_data\<close> so far.
\<close>

fun append_entries :: "item \<Rightarrow> nat list \<Rightarrow> row list \<Rightarrow> error + row list" where
  "append_entries it [] flat_data = Inr flat_data"
| "append_entries it (i # is) flat_data =
     (case flat_row it i of
        Inl e \<Rightarrow> Inl e
      | Inr r \<Rightarrow> append_entries it is (flat_data @ [r]))"

text \<open>The outer loop \<^verbatim>\<open>for item in list_of_dicts\<close>.\<close>

fun flatten_loop :: "item list \<Rightarrow> row list \<Rightarrow> error + row list" where
  "flatten_loop [] flat_data = Inr flat_data"
| "flatten_loop (it # items) flat_data =
     (let num_entries = length (item_german_word it) in
      case append_entries it [0..<num_entries] flat_data of
        Inl e \<Rightarrow> Inl e
      | Inr flat_data' \<Rightarrow> flatten_loop items flat_data')"

text \<open>
  \<^verbatim>\<open>_create_dataframe_from_list_of_dict\<close>. The DataFrame built from the list of row
  dictionaries is the list of rows; its index is the default one, the position.
\<close>

definition create_dataframe_from_list_of_dict :: "item list \<Rightarrow> error + row list" where
  "create_dataframe_from_list_of_dict list_of_dicts = flatten_loop list_of_dicts []"





subsection \<open>What the specification says of a record\<close>

text \<open>
  The data model's invariant of a SentenceRecord: the four sequences have one length
  \<open>N \<ge> 1\<close>.
\<close>

definition valid_record :: "item \<Rightarrow> bool" where
  "valid_record it \<longleftrightarrow>
     1 \<le> length (item_german_word it) \<and>
     length (item_english_word it) = length (item_german_word it) \<and>
     length (item_german_sentence it) = length (item_german_word it) \<and>
     length (item_english_sentence it) = length (item_german_word it)"

text \<open>The four sequences are of one length (the negation is the input of the error contracts).\<close>

definition equal_lengths :: "item \<Rightarrow> bool" where
  "equal_lengths it \<longleftrightarrow>
     length (item_english_word it) = length (item_german_word it) \<and>
     length (item_german_sentence it) = length (item_german_word it) \<and>
     length (item_english_sentence it) = length (item_german_word it)"

text \<open>
  The rows the specification's flattener gives for one record: one per meaning index, the
  i-th element of each sequence.
\<close>

definition meaning_row :: "item \<Rightarrow> nat \<Rightarrow> row" where
  "meaning_row it i =
     \<lparr>german_word = item_german_word it ! i, english_word = item_english_word it ! i,
      german_sentence = item_german_sentence it ! i,
      english_sentence = item_english_sentence it ! i\<rparr>"

definition rows_of :: "item \<Rightarrow> row list" where
  "rows_of it = map (meaning_row it) [0..<length (item_german_word it)]"

text \<open>
  A record the code cannot flatten: one of the other three lists is shorter than the list
  of German words, so a subscript of lines 154-156 runs out of range.
\<close>

definition too_short :: "item \<Rightarrow> bool" where
  "too_short it \<longleftrightarrow>
     length (item_english_word it) < length (item_german_word it) \<or>
     length (item_german_sentence it) < length (item_german_word it) \<or>
     length (item_english_sentence it) < length (item_german_word it)"

text \<open>
  The first meaning index at which such a record runs out: the least of the lengths of
  the other three lists.
\<close>

definition first_missing :: "item \<Rightarrow> nat" where
  "first_missing it =
     min (length (item_english_word it))
       (min (length (item_german_sentence it)) (length (item_english_sentence it)))"

subsection \<open>Example records\<close>

definition gehen :: item where
  "gehen = \<lparr>item_german_word = [''gehen'', ''gehen''],
            item_english_word = [''to go'', ''to work''],
            item_german_sentence = [''Ich gehe nach Hause.'', ''Die Uhr geht nicht.''],
            item_english_sentence = [''I am going home.'', ''The clock does not work.'']\<rparr>"

definition haus :: item where
  "haus = \<lparr>item_german_word = [''Haus''], item_english_word = [''house''],
           item_german_sentence = [''Das Haus ist alt.''],
           item_english_sentence = [''The house is old.'']\<rparr>"

text \<open>Two German entries and one English entry: the malformed output of the specification.\<close>

definition two_to_one :: item where
  "two_to_one = \<lparr>item_german_word = [''gehen'', ''gehen''], item_english_word = [''to go''],
                 item_german_sentence = [''Ich gehe nach Hause.'', ''Die Uhr geht nicht.''],
                 item_english_sentence = [''I am going home.'', ''The clock does not work.'']\<rparr>"

text \<open>One German entry and two English entries.\<close>

definition one_to_two :: item where
  "one_to_two = \<lparr>item_german_word = [''gehen''], item_english_word = [''to go'', ''to work''],
                 item_german_sentence = [''Ich gehe nach Hause.''],
                 item_english_sentence = [''I am going home.'']\<rparr>"



section \<open>text\_to\_speech\_and\_generate\_video.py: audio\<close>

text \<open>
  A pydub AudioSegment is a stretch of sound measured in milliseconds: a list with one
  entry for each millisecond, silent or voiced. \<^verbatim>\<open>+\<close> on segments is \<open>@\<close>.
\<close>

datatype frame = Silent | Voiced nat

type_synonym AudioSegment = "frame list"

text \<open>\<^verbatim>\<open>AudioSegment.silent(duration=d)\<close>.\<close>

definition silent :: "nat \<Rightarrow> AudioSegment" where
  "silent duration = replicate duration Silent"

text \<open>\<^verbatim>\<open>_add_silence\<close>.\<close>

definition add_silence :: "AudioSegment \<Rightarrow> nat \<Rightarrow> AudioSegment" where
  "add_silence audio duration = (let silence = silent duration in silence @ audio @ silence)"

text \<open>
  What \<^verbatim>\<open>generate_audio\<close> does to the outside: the requests sent to the speech
  service (text and language code) and the mp3 files exported, both in the order made.
\<close>

record synthesis_log =
  requests :: "(string \<times> string) list"
  mp3_files :: "(string \<times> AudioSegment) list"

text \<open>
  \<^verbatim>\<open>_synthesize_text\<close>. The Google client is a library: \<open>client text language_code\<close>
  is the decoded audio of the reply, or the exception of the call.
\<close>

definition synthesize_text ::
  "(string \<Rightarrow> string \<Rightarrow> error + AudioSegment) \<Rightarrow> string \<Rightarrow> string \<Rightarrow> synthesis_log \<Rightarrow>
   (error + AudioSegment) \<times> synthesis_log" where
  "synthesize_text client txt language_code w =
     (client txt language_code, w\<lparr>requests := requests w @ [(txt, language_code)]\<rparr>)"

text \<open>
  A narration order: (language code, column) pairs. A column is the selector of the row's
  field of that name, so that \<^verbatim>\<open>row[column]\<close> is \<open>column row\<close>.
\<close>

type_synonym order = "(string \<times> (row \<Rightarrow> string)) list"

definition orders :: "order list" where
  "orders =
     [[(''en-US'', english_word), (''de-DE'', german_word), (''en-US'', english_sentence),
       (''de-DE'', german_sentence)],
      [(''de-DE'', german_word), (''en-US'', english_word), (''de-DE'', german_sentence),
       (''en-US'', english_sentence)]]"

text \<open>\<^verbatim>\<open>_get_orders\<close>.\<close>

definition get_orders :: "string \<Rightarrow> error + order list" where
  "get_orders language_mode =
     (if language_mode \<notin> {''EN_DE'', ''DE_EN'', ''BOTH''} then Inl ValueError
      else if language_mode = ''EN_DE'' then Inr [orders ! 0]
      else if language_mode = ''DE_EN'' then Inr [orders ! 1]
      else Inr orders)"

text \<open>Python's \<^verbatim>\<open>str\<close> of an integer, for the f-strings that name the files.\<close>

definition digit :: "nat \<Rightarrow> char" where
  "digit d = ''0123456789'' ! d"

function str_nat :: "nat \<Rightarrow> string" where
  "str_nat n = (if n < 10 then [digit n] else str_nat (n div 10) @ [digit (n mod 10)])"
  by pat_completeness auto
termination
  by (relation "measure id") auto

declare str_nat.simps [simp del]

definition str_int :: "int \<Rightarrow> string" where
  "str_int k = (if k < 0 then CHR ''-'' # str_nat (nat (- k)) else str_nat (nat k))"

text \<open>The f-string of line 102.\<close>

definition mp3_name :: "nat \<Rightarrow> nat \<Rightarrow> string" where
  "mp3_name i file_index = str_nat i @ ''_'' @ str_nat file_index @ ''.mp3''"

text \<open>
  The loop \<^verbatim>\<open>for lang, column in order\<close> of lines 93-99, with
  \<^verbatim>\<open>combined_audio\<close> (\<open>None\<close> at first) as its state.
\<close>

fun combine_fields ::
  "(string \<Rightarrow> string \<Rightarrow> error + AudioSegment) \<Rightarrow> row \<Rightarrow> order \<Rightarrow> AudioSegment option \<Rightarrow>
   synthesis_log \<Rightarrow> (error + AudioSegment option) \<times> synthesis_log" where
  "combine_fields client r [] combined_audio w = (Inr combined_audio, w)"
| "combine_fields client r ((lang, column) # order) combined_audio w =
     (case synthesize_text client (column r) lang w of
        (Inl e, w') \<Rightarrow> (Inl e, w')
      | (Inr audio, w') \<Rightarrow>
          (let audio_with_silence = add_silence audio 1500 in
           combine_fields client r order
             (Some (case combined_audio of
                      None \<Rightarrow> audio_with_silence
                    | Some c \<Rightarrow> c @ audio_with_silence)) w'))"

text \<open>
  The loop \<^verbatim>\<open>for order_idx, order in enumerate(process_orders)\<close> of lines 91-104 for
  row \<open>i\<close>. Exporting a \<^verbatim>\<open>combined_audio\<close> that is still \<open>None\<close> is an
  AttributeError.
\<close>

fun export_orders ::
  "(string \<Rightarrow> string \<Rightarrow> error + AudioSegment) \<Rightarrow> string \<Rightarrow> nat \<Rightarrow> row \<Rightarrow>
   (nat \<times> order) list \<Rightarrow> synthesis_log \<Rightarrow> error option \<times> synthesis_log" where
  "export_orders client language_version i r [] w = (None, w)"
| "export_orders client language_version i r ((order_idx, order) # rest) w =
     (case combine_fields client r order None w of
        (Inl e, w') \<Rightarrow> (Some e, w')
      | (Inr None, w') \<Rightarrow> (Some AttributeError, w')
      | (Inr (Some combined_audio), w') \<Rightarrow>
          (let file_index = (if language_version \<noteq> ''BOTH'' then 0 else order_idx);
               filename = mp3_name i file_index
           in export_orders client language_version i r rest
                (w'\<lparr>mp3_files := mp3_files w' @ [(filename, combined_audio)]\<rparr>)))"

text \<open>
  The loop \<^verbatim>\<open>for i, row in dataframe.iterrows()\<close> of lines 90-104. The table is the
  list of its rows and carries the default index, so \<^verbatim>\<open>iterrows\<close> pairs each row with
  its position.
\<close>

definition iterrows :: "row list \<Rightarrow> (nat \<times> row) list" where
  "iterrows dataframe = List.enumerate 0 dataframe"

fun audio_rows ::
  "(string \<Rightarrow> string \<Rightarrow> error + AudioSegment) \<Rightarrow> string \<Rightarrow> order list \<Rightarrow>
   (nat \<times> row) list \<Rightarrow> synthesis_log \<Rightarrow> error option \<times> synthesis_log" where
  "audio_rows client language_version process_orders [] w = (None, w)"
| "audio_rows client language_version process_orders ((i, r) # rest) w =
     (case export_orders client language_version i r (List.enumerate 0 process_orders) w of
        (Some e, w') \<Rightarrow> (Some e, w')
      | (None, w') \<Rightarrow> audio_rows client language_version process_orders rest w')"

text \<open>\<^verbatim>\<open>generate_audio\<close>: the exception raised, if any, and the log afterwards.\<close>

definition generate_audio ::
  "(string \<Rightarrow> string \<Rightarrow> error + AudioSegment) \<Rightarrow> row list \<Rightarrow> string \<Rightarrow> synthesis_log \<Rightarrow>
   error option \<times> synthesis_log" where
  "generate_audio client dataframe language_version w =
     (case get_orders language_version of
        Inl e \<Rightarrow> (Some e, w)
      | Inr process_orders \<Rightarrow>
          audio_rows client language_version process_orders (iterrows dataframe) w)"

section \<open>text\_to\_speech\_and\_generate\_video.py: video\<close>

text \<open>
  A moviepy TextClip in the fixed style of line 109 is its text and its duration. Python
  takes the duration of an audio clip, in seconds, as a float; here it is an exact
  rational, the length of the sound in milliseconds over 1000.
\<close>

record TextClip =
  clip_text :: string
  clip_duration :: rat

definition duration :: "AudioSegment \<Rightarrow> rat" where
  "duration audio = of_nat (length audio) / 1000"

text \<open>
  \<^verbatim>\<open>_generate_text_clip\<close>. ImageMagick renders the text; \<open>render txt\<close> says whether it
  can. The clip is built before the quotient is computed.
\<close>

definition generate_text_clip ::
  "(string \<Rightarrow> bool) \<Rightarrow> string \<Rightarrow> AudioSegment \<Rightarrow> int \<Rightarrow> error + TextClip" where
  "generate_text_clip render txt audio duration_split =
     (if \<not> render txt then Inl OSError_TextClip
      else if duration_split = 0 then Inl ZeroDivisionError
      else Inr \<lparr>clip_text = txt, clip_duration = duration audio / of_int duration_split\<rparr>)"

text \<open>The dictionary \<^verbatim>\<open>orders\<close> of lines 129-134.\<close>

definition video_orders :: "string \<rightharpoonup> order" where
  "video_orders =
     [''EN_DE'' \<mapsto> [(''en-US'', english_word), (''de-DE'', german_word),
                      (''en-US'', english_sentence), (''de-DE'', german_sentence)],
      ''DE_EN'' \<mapsto> [(''de-DE'', german_word), (''en-US'', english_word),
                      (''de-DE'', german_sentence), (''en-US'', english_sentence)]]"

text \<open>\<^verbatim>\<open>AudioFileClip(audio_filename)\<close> on a disk that holds the mp3 files by name.\<close>

definition AudioFileClip :: "(string \<rightharpoonup> AudioSegment) \<Rightarrow> string \<Rightarrow> error + AudioSegment" where
  "AudioFileClip disk audio_filename =
     (case disk audio_filename of None \<Rightarrow> Inl OSError_AudioFileClip | Some audio \<Rightarrow> Inr audio)"

text \<open>The loop of lines 153-156, for the format \<^verbatim>\<open>4slides\<close>.\<close>

fun field_clips ::
  "(string \<Rightarrow> bool) \<Rightarrow> order \<Rightarrow> row \<Rightarrow> AudioSegment \<Rightarrow> TextClip list \<Rightarrow> error + TextClip list"
  where
  "field_clips render [] r audio clips = Inr clips"
| "field_clips render ((lang, column) # order) r audio clips =
     (case generate_text_clip render (column r) audio 4 of
        Inl e \<Rightarrow> Inl e
      | Inr clip \<Rightarrow> field_clips render order r audio (clips @ [clip]))"

text \<open>
  Lines 151-164: the clips of one row. In the format \<^verbatim>\<open>2slides\<close> the subscripts
  \<^verbatim>\<open>order[0]\<close> to \<^verbatim>\<open>order[3]\<close> need four entries.
\<close>

definition slide_clips ::
  "(string \<Rightarrow> bool) \<Rightarrow> string \<Rightarrow> order \<Rightarrow> row \<Rightarrow> AudioSegment \<Rightarrow> error + TextClip list" where
  "slide_clips render slides_format order r audio =
     (if slides_format = ''4slides'' then field_clips render order r audio []
      else if slides_format = ''2slides'' then
        (case order of
           (l0, c0) # (l1, c1) # (l2, c2) # (l3, c3) # others \<Rightarrow>
             (let text1 = c0 r @ [CHR 0x0A] @ c1 r;
                  text2 = c2 r @ [CHR 0x0A] @ c3 r
              in case generate_text_clip render text1 audio 2 of
                   Inl e \<Rightarrow> Inl e
                 | Inr clip1 \<Rightarrow>
                     (case generate_text_clip render text2 audio 2 of
                        Inl e \<Rightarrow> Inl e
                      | Inr clip2 \<Rightarrow> Inr [clip1, clip2]))
         | _ \<Rightarrow> Inl IndexError)
      else Inl ValueError)"

text \<open>
  Lines 145-166 for the row at index \<open>i\<close>: the audio clip read from the row's mp3 file
  and the row's video clip, the concatenation of its text clips.
\<close>

definition assemble_row ::
  "(string \<Rightarrow> bool) \<Rightarrow> (string \<rightharpoonup> AudioSegment) \<Rightarrow> string \<Rightarrow> string \<Rightarrow> order \<Rightarrow> nat \<Rightarrow> row \<Rightarrow>
   error + AudioSegment \<times> TextClip list" where
  "assemble_row render disk slides_format language_version order i r =
     (let order_idx = (if language_version = ''EN_DE'' then 0 else 1);
          audio_filename = mp3_name i order_idx
      in case AudioFileClip disk audio_filename of
           Inl e \<Rightarrow> Inl e
         | Inr audio \<Rightarrow>
             (case slide_clips render slides_format order r audio of
                Inl e \<Rightarrow> Inl e
              | Inr clips \<Rightarrow> Inr (audio, clips)))"

text \<open>The four variables the loop of \<^verbatim>\<open>generate_video\<close> keeps between rows.\<close>

record batch_state =
  video_clips :: "TextClip list list"
  audio_clips :: "AudioSegment list"
  word_count :: int
  unique_words :: "string set"

definition empty_state :: batch_state where
  "empty_state = \<lparr>video_clips = [], audio_clips = [], word_count = 0, unique_words = {}\<rparr>"

text \<open>A written video: the text clips in sequence and the audio track set on them.\<close>

record video =
  overlays :: "TextClip list"
  soundtrack :: AudioSegment

text \<open>The f-string of line 177.\<close>

definition mp4_name :: "nat \<Rightarrow> int \<Rightarrow> string \<Rightarrow> string \<Rightarrow> string" where
  "mp4_name i words_per_video slides_format language_version =
     ''combined_video_'' @ str_int (int i div words_per_video + 1) @ ''_'' @ slides_format @
     ''_'' @ language_version @ ''.mp4''"

text \<open>
  The loop of lines 144-183 over the remaining rows: \<open>n\<close> is \<^verbatim>\<open>len(dataframe)\<close>,
  \<open>st\<close> the four variables, \<open>written\<close> the video files written so far, in order. The
  result is the exception raised, if any, and the files written. The quotient in the file
  name is computed before the file is written.
\<close>

fun video_rows ::
  "(string \<Rightarrow> bool) \<Rightarrow> (string \<rightharpoonup> AudioSegment) \<Rightarrow> int \<Rightarrow> string \<Rightarrow> string \<Rightarrow> order \<Rightarrow> nat \<Rightarrow>
   (nat \<times> row) list \<Rightarrow> batch_state \<Rightarrow> (string \<times> video) list \<Rightarrow>
   error option \<times> (string \<times> video) list" where
  "video_rows render disk words_per_video slides_format language_version order n [] st written
     = (None, written)"
| "video_rows render disk words_per_video slides_format language_version order n ((i, r) # rest)
     st written =
     (case assemble_row render disk slides_format language_version order i r of
        Inl e \<Rightarrow> (Some e, written)
      | Inr (audio, clips) \<Rightarrow>
          (let st1 = st\<lparr>audio_clips := audio_clips st @ [audio],
                        video_clips := video_clips st @ [clips]\<rparr>;
               current_word = german_word r;
               st2 = (if current_word \<notin> unique_words st1
                      then st1\<lparr>unique_words := insert current_word (unique_words st1),
                               word_count := word_count st1 + 1\<rparr>
                      else st1)
           in if word_count st2 = words_per_video \<or> int i = int n - 1 then
                (if words_per_video = 0 then (Some ZeroDivisionError, written)
                 else
                   (let final_audio = concat (audio_clips st2);
                        final_video = \<lparr>overlays = concat (video_clips st2),
                                       soundtrack = final_audio\<rparr>;
                        filename = mp4_name i words_per_video slides_format language_version
                    in video_rows render disk words_per_video slides_format language_version
                         order n rest empty_state (written @ [(filename, final_video)])))
              else video_rows render disk words_per_video slides_format language_version
                     order n rest st2 written))"

text \<open>\<^verbatim>\<open>generate_video\<close>: the exception raised, if any, and the video files written.\<close>

definition generate_video ::
  "(string \<Rightarrow> bool) \<Rightarrow> (string \<rightharpoonup> AudioSegment) \<Rightarrow> row list \<Rightarrow> int \<Rightarrow> string \<Rightarrow> string \<Rightarrow>
   error option \<times> (string \<times> video) list" where
  "generate_video render disk dataframe words_per_video slides_format language_version =
     (case video_orders language_version of
        None \<Rightarrow> (Some ValueError, [])
      | Some order \<Rightarrow>
          video_rows render disk words_per_video slides_format language_version order
            (length dataframe) (iterrows dataframe) empty_state [])"

text \<open>The disk after a sequence of exports: a later file replaces an earlier one of its name.\<close>

fun disk_after :: "(string \<rightharpoonup> AudioSegment) \<Rightarrow> (string \<times> AudioSegment) list \<Rightarrow>
    (string \<rightharpoonup> AudioSegment)" where
  "disk_after disk [] = disk"
| "disk_after disk ((filename, audio) # files) = disk_after (disk(filename \<mapsto> audio)) files"

section \<open>What the specification says of audio and batches\<close>

text \<open>A narration padded with the fixed silence of 1500 milliseconds before and after.\<close>

definition padded :: "AudioSegment \<Rightarrow> AudioSegment" where
  "padded narration = silent 1500 @ narration @ silent 1500"

text \<open>
  The artifact of one ordering: the four padded narrations, concatenated in the order of
  the mode. \<open>voice txt language_code\<close> is the narration of a text in a language.
\<close>

definition artifact_en_de :: "(string \<Rightarrow> string \<Rightarrow> AudioSegment) \<Rightarrow> row \<Rightarrow> AudioSegment" where
  "artifact_en_de voice r =
     padded (voice (english_word r) ''en-US'') @ padded (voice (german_word r) ''de-DE'') @
     padded (voice (english_sentence r) ''en-US'') @ padded (voice (german_sentence r) ''de-DE'')"

definition artifact_de_en :: "(string \<Rightarrow> string \<Rightarrow> AudioSegment) \<Rightarrow> row \<Rightarrow> AudioSegment" where
  "artifact_de_en voice r =
     padded (voice (german_word r) ''de-DE'') @ padded (voice (english_word r) ''en-US'') @
     padded (voice (german_sentence r) ''de-DE'') @ padded (voice (english_sentence r) ''en-US'')"

text \<open>The artifacts of the row at index \<open>i\<close>: two under BOTH, one under a single mode.\<close>

definition artifacts ::
  "(string \<Rightarrow> string \<Rightarrow> AudioSegment) \<Rightarrow> string \<Rightarrow> nat \<times> row \<Rightarrow> (string \<times> AudioSegment) list" where
  "artifacts voice language_mode ir =
     (if language_mode = ''BOTH''
      then [(mp3_name (fst ir) 0, artifact_en_de voice (snd ir)),
            (mp3_name (fst ir) 1, artifact_de_en voice (snd ir))]
      else if language_mode = ''EN_DE'' then [(mp3_name (fst ir) 0, artifact_en_de voice (snd ir))]
      else [(mp3_name (fst ir) 0, artifact_de_en voice (snd ir))])"

text \<open>The speech service answers the four fields of a row with the narrations \<open>voice\<close> gives.\<close>

definition speaks ::
  "(string \<Rightarrow> string \<Rightarrow> error + AudioSegment) \<Rightarrow> (string \<Rightarrow> string \<Rightarrow> AudioSegment) \<Rightarrow> row \<Rightarrow> bool"
  where
  "speaks client voice r \<longleftrightarrow>
     client (english_word r) ''en-US'' = Inr (voice (english_word r) ''en-US'') \<and>
     client (german_word r) ''de-DE'' = Inr (voice (german_word r) ''de-DE'') \<and>
     client (english_sentence r) ''en-US'' = Inr (voice (english_sentence r) ''en-US'') \<and>
     client (german_sentence r) ''de-DE'' = Inr (voice (german_sentence r) ''de-DE'')"

text \<open>The number of distinct source words among the rows of a batch.\<close>

definition distinct_words :: "(nat \<times> row) list \<Rightarrow> nat" where
  "distinct_words batch = length (remdups (map (german_word \<circ> snd) batch))"


text \<open>The batches emitted because the count was reached, and the rows left after them.\<close>

fun closed_batches :: "int \<Rightarrow> (nat \<times> row) list \<Rightarrow> (nat \<times> row) list \<Rightarrow> (nat \<times> row) list list" where
  "closed_batches w cur [] = []"
| "closed_batches w cur (x # xs) =
     (if int (distinct_words (cur @ [x])) = w then (cur @ [x]) # closed_batches w [] xs
      else closed_batches w (cur @ [x]) xs)"

fun open_rows :: "int \<Rightarrow> (nat \<times> row) list \<Rightarrow> (nat \<times> row) list \<Rightarrow> (nat \<times> row) list" where
  "open_rows w cur [] = cur"
| "open_rows w cur (x # xs) =
     (if int (distinct_words (cur @ [x])) = w then open_rows w [] xs
      else open_rows w (cur @ [x]) xs)"


text \<open>
  The video of a batch, given the audio clip and the text clips of each row: both tracks
  are the concatenations over the rows of the batch, in row order. Its file is named
  after the index of the batch's last row.
\<close>

definition batch_video ::
  "(nat \<Rightarrow> row \<Rightarrow> AudioSegment \<times> TextClip list) \<Rightarrow> (nat \<times> row) list \<Rightarrow> video" where
  "batch_video seg batch =
     \<lparr>overlays = concat (map (\<lambda>(i, r). snd (seg i r)) batch),
      soundtrack = concat (map (\<lambda>(i, r). fst (seg i r)) batch)\<rparr>"

definition batch_file ::
  "(nat \<Rightarrow> row \<Rightarrow> AudioSegment \<times> TextClip list) \<Rightarrow> int \<Rightarrow> string \<Rightarrow> string \<Rightarrow>
   (nat \<times> row) list \<Rightarrow> string \<times> video" where
  "batch_file seg words_per_video slides_format language_version batch =
     (mp4_name (fst (last batch)) words_per_video slides_format language_version,
      batch_video seg batch)"

text \<open>The loop's four variables when the rows \<open>cur\<close> are in the current batch.\<close>

definition state_for ::
  "(nat \<Rightarrow> row \<Rightarrow> AudioSegment \<times> TextClip list) \<Rightarrow> (nat \<times> row) list \<Rightarrow> batch_state" where
  "state_for seg cur =
     \<lparr>video_clips = map (\<lambda>(i, r). snd (seg i r)) cur,
      audio_clips = map (\<lambda>(i, r). fst (seg i r)) cur,
      word_count = int (distinct_words cur),
      unique_words = set (map (german_word \<circ> snd) cur)\<rparr>"

subsection \<open>Example tables\<close>

definition entry :: "string \<Rightarrow> string \<Rightarrow> row" where
  "entry g e = \<lparr>german_word = g, english_word = e, german_sentence = g @ ''.'',
               english_sentence = e @ ''.''\<rparr>"

text \<open>Five rows over the words A, A, B, C, D: the first word has two meanings.\<close>

definition rows5 :: "row list" where
  "rows5 = [entry ''A'' ''a1'', entry ''A'' ''a2'', entry ''B'' ''b'', entry ''C'' ''c'',
            entry ''D'' ''d'']"

text \<open>A disk with the audio files of five rows in the order EN\_DE, each two milliseconds.\<close>

definition disk5 :: "string \<rightharpoonup> AudioSegment" where
  "disk5 = [''0_0.mp3'' \<mapsto> [Voiced 0, Voiced 0], ''1_0.mp3'' \<mapsto> [Voiced 1, Voiced 1],
            ''2_0.mp3'' \<mapsto> [Voiced 2, Voiced 2], ''3_0.mp3'' \<mapsto> [Voiced 3, Voiced 3],
            ''4_0.mp3'' \<mapsto> [Voiced 4, Voiced 4]]"

text \<open>A speech service that answers every request with one millisecond of sound.\<close>

definition beep :: "string \<Rightarrow> string \<Rightarrow> AudioSegment" where
  "beep txt language_code = [Voiced (length txt)]"

definition no_log :: synthesis_log where
  "no_log = \<lparr>requests = [], mp3_files = []\<rparr>"

text \<open>
  The audio clip and the two text clips of a row of the five-row table in the format
  \<^verbatim>\<open>2slides\<close>, and its four text clips in the format \<^verbatim>\<open>4slides\<close>.
\<close>

definition seg2 :: "nat \<Rightarrow> row \<Rightarrow> AudioSegment \<times> TextClip list" where
  "seg2 i r =
     ([Voiced i, Voiced i],
      [\<lparr>clip_text = english_word r @ [CHR 0x0A] @ german_word r, clip_duration = 1 / 1000\<rparr>,
       \<lparr>clip_text = english_sentence r @ [CHR 0x0A] @ german_sentence r,
        clip_duration = 1 / 1000\<rparr>])"

definition seg4 :: "nat \<Rightarrow> row \<Rightarrow> AudioSegment \<times> TextClip list" where
  "seg4 i r =
     ([Voiced i, Voiced i],
      [\<lparr>clip_text = english_word r, clip_duration = 1 / 2000\<rparr>,
       \<lparr>clip_text = german_word r, clip_duration = 1 / 2000\<rparr>,
       \<lparr>clip_text = english_sentence r, clip_duration = 1 / 2000\<rparr>,
       \<lparr>clip_text = german_sentence r, clip_duration = 1 / 2000\<rparr>])"

definition en_de :: order where
  "en_de = [(''en-US'', english_word), (''de-DE'', german_word), (''en-US'', english_sentence),
            (''de-DE'', german_sentence)]"

text \<open>A renderer that fails on the text \<open>''x''\<close> and on no other.\<close>

definition no_x :: "string \<Rightarrow> bool" where
  "no_x txt \<longleftrightarrow> txt \<noteq> ''x''"

section \<open>Flattening: lemmas\<close>

lemma flat_row_in_range:
  assumes "i < length (item_german_word it)" and "i < length (item_english_word it)"
    and "i < length (item_german_sentence it)" and "i < length (item_english_sentence it)"
  shows "flat_row it i = Inr (meaning_row it i)"
  using assms by (simp add: flat_row_def getitem_def meaning_row_def)

lemma flat_row_short:
  assumes "i < length (item_german_word it)"
    and "\<not> (i < length (item_english_word it) \<and> i < length (item_german_sentence it) \<and>
            i < length (item_english_sentence it))"
  shows "flat_row it i = Inl IndexError"
  using assms by (auto simp: flat_row_def getitem_def)

lemma append_entries_ok:
  assumes "\<forall>i \<in> set is. i < length (item_german_word it) \<and>
      i < length (item_english_word it) \<and> i < length (item_german_sentence it) \<and>
      i < length (item_english_sentence it)"
  shows "append_entries it is acc = Inr (acc @ map (meaning_row it) is)"
  using assms
proof (induction "is" arbitrary: acc)
  case Nil
  then show ?case by simp
next
  case (Cons i "is")
  then show ?case by (simp add: flat_row_in_range)
qed

lemma append_entries_append:
  "append_entries it (xs @ ys) acc =
     (case append_entries it xs acc of
        Inl e \<Rightarrow> Inl e
      | Inr acc' \<Rightarrow> append_entries it ys acc')"
  by (induction xs arbitrary: acc) (auto split: sum.splits)

lemma append_entries_until_missing:
  assumes "too_short it"
  shows "first_missing it < length (item_german_word it) \<and>
         append_entries it [0..<first_missing it] acc
           = Inr (acc @ map (meaning_row it) [0..<first_missing it]) \<and>
         flat_row it (first_missing it) = Inl IndexError"
proof -
  have m_lt: "first_missing it < length (item_german_word it)"
    using assms unfolding first_missing_def too_short_def by auto
  have before: "append_entries it [0..<first_missing it] acc
      = Inr (acc @ map (meaning_row it) [0..<first_missing it])"
    by (rule append_entries_ok) (use m_lt in \<open>auto simp: first_missing_def\<close>)
  have at_m: "flat_row it (first_missing it) = Inl IndexError"
    by (rule flat_row_short) (use m_lt in \<open>auto simp: first_missing_def min_def\<close>)
  from m_lt before at_m show ?thesis by simp
qed

lemma append_entries_short:
  assumes "too_short it"
  shows "append_entries it [0..<length (item_german_word it)] acc = Inl IndexError"
proof -
  define n where "n = length (item_german_word it)"
  define m where "m = first_missing it"
  note facts = append_entries_until_missing [OF assms, of acc, folded m_def n_def]
  have split_range: "[0..<n] = [0..<m] @ m # [Suc m..<n]"
    using facts by (metis le_add2 le_add_same_cancel2 less_imp_add_positive upt_add_eq_append
        upt_conv_Cons)
  show ?thesis
    unfolding n_def [symmetric] split_range append_entries_append
    using facts by simp
qed

lemma flatten_loop_ok:
  assumes "\<forall>it \<in> set items. \<not> too_short it"
  shows "flatten_loop items acc = Inr (acc @ concat (map rows_of items))"
  using assms
proof (induction items arbitrary: acc)
  case Nil
  then show ?case by simp
next
  case (Cons it items)
  have "append_entries it [0..<length (item_german_word it)] acc
        = Inr (acc @ map (meaning_row it) [0..<length (item_german_word it)])"
    by (rule append_entries_ok) (use Cons.prems in \<open>auto simp: too_short_def\<close>)
  with Cons show ?case by (simp add: rows_of_def)
qed

lemma flatten_loop_short:
  assumes "\<exists>it \<in> set items. too_short it"
  shows "flatten_loop items acc = Inl IndexError"
  using assms
proof (induction items arbitrary: acc)
  case Nil
  then show ?case by simp
next
  case (Cons it items)
  show ?case
  proof (cases "too_short it")
    case True
    then show ?thesis by (simp add: append_entries_short)
  next
    case False
    then have "append_entries it [0..<length (item_german_word it)] acc
        = Inr (acc @ map (meaning_row it) [0..<length (item_german_word it)])"
      by (intro append_entries_ok) (auto simp: too_short_def)
    moreover from False Cons.prems have "\<exists>it \<in> set items. too_short it" by simp
    ultimately show ?thesis using Cons.IH by simp
  qed
qed

lemma valid_not_short: "valid_record it \<Longrightarrow> \<not> too_short it"
  by (simp add: valid_record_def too_short_def)

lemma length_rows_of: "length (rows_of it) = length (item_german_word it)"
  by (simp add: rows_of_def)

lemma nth_rows_of: "i < length (item_german_word it) \<Longrightarrow> rows_of it ! i = meaning_row it i"
  by (simp add: rows_of_def)


section \<open>Flattening: the claims\<close>

text \<open>
  C6. On records whose four lists have one length \<open>N \<ge> 1\<close>, the flattening returns a
  table, with exactly \<open>N\<close> rows for each record, the i-th of them made of the i-th element
  of each of the four lists, in the order of the records and, within a record, of the
  meaning index: flattening two sequences of records one after the other gives the rows of
  the first followed by the rows of the second.
\<close>

theorem flatten_valid_records:
  assumes "\<forall>it \<in> set rs1. valid_record it" and "\<forall>it \<in> set rs2. valid_record it"
  shows "create_dataframe_from_list_of_dict rs1 = Inr (concat (map rows_of rs1)) \<and>
         create_dataframe_from_list_of_dict rs2 = Inr (concat (map rows_of rs2)) \<and>
         create_dataframe_from_list_of_dict (rs1 @ rs2)
           = Inr (concat (map rows_of rs1) @ concat (map rows_of rs2)) \<and>
         (\<forall>it \<in> set (rs1 @ rs2).
            create_dataframe_from_list_of_dict [it] = Inr (rows_of it) \<and>
            length (rows_of it) = length (item_german_word it) \<and>
            (\<forall>i < length (item_german_word it).
               rows_of it ! i =
                 \<lparr>german_word = item_german_word it ! i,
                  english_word = item_english_word it ! i,
                  german_sentence = item_german_sentence it ! i,
                  english_sentence = item_english_sentence it ! i\<rparr>))"
proof -
  have ok: "create_dataframe_from_list_of_dict rs = Inr (concat (map rows_of rs))"
    if "\<forall>it \<in> set rs. valid_record it" for rs
    using that flatten_loop_ok [of rs "[]"]
    by (simp add: create_dataframe_from_list_of_dict_def valid_not_short)
  have both: "\<forall>it \<in> set (rs1 @ rs2). valid_record it"
    using assms by auto
  have single: "create_dataframe_from_list_of_dict [it] = Inr (rows_of it)"
    if "it \<in> set (rs1 @ rs2)" for it
    using ok [of "[it]"] both that by simp
  show ?thesis
    using ok [OF assms(1)] ok [OF assms(2)] ok [OF both] single
    by (simp add: length_rows_of nth_rows_of meaning_row_def)
qed

theorem flatten_valid_records_witness:
  "valid_record gehen \<and> valid_record haus \<and>
   create_dataframe_from_list_of_dict [gehen, haus] =
     Inr [\<lparr>german_word = ''gehen'', english_word = ''to go'',
           german_sentence = ''Ich gehe nach Hause.'', english_sentence = ''I am going home.''\<rparr>,
          \<lparr>german_word = ''gehen'', english_word = ''to work'',
           german_sentence = ''Die Uhr geht nicht.'',
           english_sentence = ''The clock does not work.''\<rparr>,
          \<lparr>german_word = ''Haus'', english_word = ''house'',
           german_sentence = ''Das Haus ist alt.'', english_sentence = ''The house is old.''\<rparr>]"
proof -
  have v1: "\<forall>it \<in> set [gehen]. valid_record it" by (simp add: valid_record_def gehen_def)
  have v2: "\<forall>it \<in> set [haus]. valid_record it" by (simp add: valid_record_def haus_def)
  have two: "[0..<2] = [0, 1]" by (simp add: upt_rec)
  from flatten_valid_records [OF v1 v2] v1 v2 show ?thesis
    by (simp add: rows_of_def meaning_row_def gehen_def haus_def two)
qed

text \<open>
  C5, as the specification states it, fails: a record whose list of English words is
  longer than its list of German words is flattened with no error, the extra entry
  dropped.
\<close>

theorem flatten_unequal_lengths_counterexample:
  "\<not> equal_lengths one_to_two \<and>
   create_dataframe_from_list_of_dict [one_to_two] =
     Inr [\<lparr>german_word = ''gehen'', english_word = ''to go'',
           german_sentence = ''Ich gehe nach Hause.'', english_sentence = ''I am going home.''\<rparr>]"
  by (simp add: equal_lengths_def one_to_two_def create_dataframe_from_list_of_dict_def
      flat_row_def getitem_def)

text \<open>
  C5, amended. The flattening validates nothing. It raises IndexError exactly when some
  record has a list of English words, German sentences or English sentences shorter than
  its list of German words; otherwise it returns, for each record in order, as many rows
  as the record has German words, built from the first elements of the other lists, so
  that the entries of a longer list beyond that number are dropped. The error of a
  record with a shorter list arises inside the loop over its meanings, at the first index
  the shortest list lacks, after the rows of the earlier indices were appended.
\<close>

theorem flatten_error_contract:
  "create_dataframe_from_list_of_dict records =
     (if \<exists>it \<in> set records. too_short it then Inl IndexError
      else Inr (concat (map rows_of records))) \<and>
   (too_short it \<longrightarrow>
      first_missing it < length (item_german_word it) \<and>
      append_entries it [0..<first_missing it] flat_data
        = Inr (flat_data @ map (meaning_row it) [0..<first_missing it]) \<and>
      flat_row it (first_missing it) = Inl IndexError)"
  using flatten_loop_ok [of records "[]"] flatten_loop_short [of records "[]"]
    append_entries_until_missing [of it flat_data]
  by (simp add: create_dataframe_from_list_of_dict_def)

theorem flatten_error_contract_witness:
  "too_short two_to_one \<and>
   create_dataframe_from_list_of_dict [haus, two_to_one] = Inl IndexError \<and>
   first_missing two_to_one = 1 \<and>
   append_entries two_to_one [0..<1] (rows_of haus) =
     Inr [\<lparr>german_word = ''Haus'', english_word = ''house'',
           german_sentence = ''Das Haus ist alt.'', english_sentence = ''The house is old.''\<rparr>,
          \<lparr>german_word = ''gehen'', english_word = ''to go'',
           german_sentence = ''Ich gehe nach Hause.'', english_sentence = ''I am going home.''\<rparr>] \<and>
   flat_row two_to_one 1 = Inl IndexError \<and>
   \<not> too_short one_to_two \<and> \<not> too_short haus \<and>
   create_dataframe_from_list_of_dict [haus, one_to_two] =
     Inr [\<lparr>german_word = ''Haus'', english_word = ''house'',
           german_sentence = ''Das Haus ist alt.'', english_sentence = ''The house is old.''\<rparr>,
          \<lparr>german_word = ''gehen'', english_word = ''to go'',
           german_sentence = ''Ich gehe nach Hause.'', english_sentence = ''I am going home.''\<rparr>]"
proof -
  have short: "too_short two_to_one" "\<not> too_short one_to_two" "\<not> too_short haus"
    by (simp_all add: too_short_def two_to_one_def one_to_two_def haus_def)
  have m: "first_missing two_to_one = 1"
    by (simp add: first_missing_def two_to_one_def)
  note bad = flatten_error_contract [of "[haus, two_to_one]" two_to_one "rows_of haus"]
  note good = flatten_error_contract [of "[haus, one_to_two]" two_to_one "rows_of haus"]
  from bad short have a1: "create_dataframe_from_list_of_dict [haus, two_to_one] = Inl IndexError"
    by simp
  from bad short have a2: "append_entries two_to_one [0..<1] (rows_of haus)
      = Inr (rows_of haus @ map (meaning_row two_to_one) [0..<1])"
    and a3: "flat_row two_to_one 1 = Inl IndexError"
    by (simp_all add: m)
  from good short have b: "create_dataframe_from_list_of_dict [haus, one_to_two]
      = Inr (rows_of haus @ rows_of one_to_two)"
    by simp
  have rows: "rows_of haus = [\<lparr>german_word = ''Haus'', english_word = ''house'',
           german_sentence = ''Das Haus ist alt.'', english_sentence = ''The house is old.''\<rparr>]"
    "rows_of one_to_two = [\<lparr>german_word = ''gehen'', english_word = ''to go'',
           german_sentence = ''Ich gehe nach Hause.'', english_sentence = ''I am going home.''\<rparr>]"
    "map (meaning_row two_to_one) [0..<1] = [\<lparr>german_word = ''gehen'', english_word = ''to go'',
           german_sentence = ''Ich gehe nach Hause.'', english_sentence = ''I am going home.''\<rparr>]"
    by (simp_all add: rows_of_def meaning_row_def haus_def one_to_two_def two_to_one_def)
  show ?thesis
    using a1 a2 a3 b short m by (simp add: rows meaning_row_def two_to_one_def)
qed




section \<open>File names\<close>

lemma str_nat_digit: "n < 10 \<Longrightarrow> str_nat n = [digit n]"
  by (simp add: str_nat.simps)

lemma mp3_name_0_0: "mp3_name 0 0 = ''0_0.mp3''"
  by (simp add: mp3_name_def str_nat_digit digit_def)

lemma mp3_name_0_1: "mp3_name 0 (Suc 0) = ''0_1.mp3''"
  by (simp add: mp3_name_def str_nat_digit digit_def)

lemma mp3_name_index_differs: "mp3_name i 0 \<noteq> mp3_name i (Suc 0)"
  by (simp add: mp3_name_def str_nat_digit digit_def)

section \<open>Audio synthesis: lemmas\<close>

lemma get_orders_valid:
  "get_orders ''EN_DE'' = Inr [orders ! 0]" "get_orders ''DE_EN'' = Inr [orders ! 1]"
  "get_orders ''BOTH'' = Inr orders"
  by (simp_all add: get_orders_def)

lemma get_orders_invalid:
  "language_mode \<notin> {''EN_DE'', ''DE_EN'', ''BOTH''} \<Longrightarrow> get_orders language_mode = Inl ValueError"
  by (simp add: get_orders_def)

lemma combine_fields_ok:
  assumes "\<forall>(lang, column) \<in> set order. client (column r) lang = Inr (voice (column r) lang)"
  shows "combine_fields client r order (Some c) w =
     (Inr (Some (c @ concat (map (\<lambda>(lang, column). padded (voice (column r) lang)) order))),
      w\<lparr>requests := requests w @ map (\<lambda>(lang, column). (column r, lang)) order\<rparr>)"
  using assms
proof (induction order arbitrary: c w)
  case Nil
  then show ?case by simp
next
  case (Cons p order)
  obtain lang column where p: "p = (lang, column)" by (cases p)
  from Cons.prems p have here: "client (column r) lang = Inr (voice (column r) lang)"
    and rest: "\<forall>(lang, column) \<in> set order. client (column r) lang = Inr (voice (column r) lang)"
    by auto
  show ?case
    unfolding p
    by (simp add: synthesize_text_def here Cons.IH [OF rest] add_silence_def padded_def Let_def)
qed

lemma combine_en_de:
  assumes "speaks client voice r"
  shows "combine_fields client r
       [(''en-US'', english_word), (''de-DE'', german_word),
        (''en-US'', english_sentence), (''de-DE'', german_sentence)] None w =
     (Inr (Some (artifact_en_de voice r)),
      w\<lparr>requests := requests w @ [(english_word r, ''en-US''), (german_word r, ''de-DE''),
         (english_sentence r, ''en-US''), (german_sentence r, ''de-DE'')]\<rparr>)"
  using assms
  by (simp add: speaks_def synthesize_text_def add_silence_def padded_def Let_def
      artifact_en_de_def)

lemma combine_de_en:
  assumes "speaks client voice r"
  shows "combine_fields client r
       [(''de-DE'', german_word), (''en-US'', english_word),
        (''de-DE'', german_sentence), (''en-US'', english_sentence)] None w =
     (Inr (Some (artifact_de_en voice r)),
      w\<lparr>requests := requests w @ [(german_word r, ''de-DE''), (english_word r, ''en-US''),
         (german_sentence r, ''de-DE''), (english_sentence r, ''en-US'')]\<rparr>)"
  using assms
  by (simp add: speaks_def synthesize_text_def add_silence_def padded_def Let_def
      artifact_de_en_def)

lemma export_orders_single_en_de:
  assumes "speaks client voice r" and "language_version \<noteq> ''BOTH''"
  shows "\<exists>w'. export_orders client language_version i r (List.enumerate 0 [orders ! 0]) w
           = (None, w') \<and>
         mp3_files w' = mp3_files w @ [(mp3_name i 0, artifact_en_de voice r)]"
  using assms by (simp add: orders_def combine_en_de del: combine_fields.simps)

lemma export_orders_single_de_en:
  assumes "speaks client voice r" and "language_version \<noteq> ''BOTH''"
  shows "\<exists>w'. export_orders client language_version i r (List.enumerate 0 [orders ! 1]) w
           = (None, w') \<and>
         mp3_files w' = mp3_files w @ [(mp3_name i 0, artifact_de_en voice r)]"
  using assms by (simp add: orders_def combine_de_en del: combine_fields.simps)

lemma export_orders_both:
  assumes "speaks client voice r"
  shows "\<exists>w'. export_orders client ''BOTH'' i r (List.enumerate 0 orders) w = (None, w') \<and>
         mp3_files w' = mp3_files w @ [(mp3_name i 0, artifact_en_de voice r),
                                      (mp3_name i 1, artifact_de_en voice r)]"
  using assms by (simp add: orders_def combine_en_de combine_de_en del: combine_fields.simps)

lemma export_orders_artifacts:
  assumes "speaks client voice r" and "language_version \<in> {''EN_DE'', ''DE_EN'', ''BOTH''}"
    and "get_orders language_version = Inr process_orders"
  shows "\<exists>w'. export_orders client language_version i r (List.enumerate 0 process_orders) w
           = (None, w') \<and>
         mp3_files w' = mp3_files w @ artifacts voice language_version (i, r)"
proof -
  consider "language_version = ''EN_DE''" | "language_version = ''DE_EN''"
    | "language_version = ''BOTH''"
    using assms(2) by auto
  then show ?thesis
  proof cases
    case 1
    with assms(3) have "process_orders = [orders ! 0]" by (simp add: get_orders_def)
    with 1 export_orders_single_en_de [OF assms(1), of language_version i w] show ?thesis
      by (simp add: artifacts_def)
  next
    case 2
    with assms(3) have "process_orders = [orders ! 1]" by (simp add: get_orders_def)
    with 2 export_orders_single_de_en [OF assms(1), of language_version i w] show ?thesis
      by (simp add: artifacts_def)
  next
    case 3
    with assms(3) have "process_orders = orders" by (simp add: get_orders_def)
    with 3 export_orders_both [OF assms(1), of i w] show ?thesis
      by (simp add: artifacts_def)
  qed
qed

lemma audio_rows_artifacts:
  assumes "\<forall>ir \<in> set rows. speaks client voice (snd ir)"
    and "language_version \<in> {''EN_DE'', ''DE_EN'', ''BOTH''}"
    and "get_orders language_version = Inr process_orders"
  shows "\<exists>w'. audio_rows client language_version process_orders rows w = (None, w') \<and>
         mp3_files w' = mp3_files w @ concat (map (artifacts voice language_version) rows)"
  using assms(1)
proof (induction rows arbitrary: w)
  case Nil
  then show ?case by simp
next
  case (Cons ir rows)
  obtain i r where ir: "ir = (i, r)" by (cases ir)
  from Cons.prems ir have "speaks client voice r" by simp
  from export_orders_artifacts [OF this assms(2) assms(3), of i w]
  obtain w1 where w1: "export_orders client language_version i r
        (List.enumerate 0 process_orders) w = (None, w1)"
      "mp3_files w1 = mp3_files w @ artifacts voice language_version (i, r)"
    by blast
  from Cons.IH [of w1] Cons.prems
  obtain w2 where w2: "audio_rows client language_version process_orders rows w1 = (None, w2)"
      "mp3_files w2 = mp3_files w1 @ concat (map (artifacts voice language_version) rows)"
    by auto
  show ?case
    using w1 w2 ir by simp
qed

lemma snd_in_iterrows: "ir \<in> set (iterrows dataframe) \<Longrightarrow> snd ir \<in> set dataframe"
  using nth_mem by (fastforce simp: iterrows_def in_set_enumerate_eq)

lemma iterrows_single: "iterrows [r] = [(0, r)]"
  by (simp add: iterrows_def enumerate_simps)

lemma length_iterrows: "length (iterrows dataframe) = length dataframe"
  by (simp add: iterrows_def)

lemma generate_audio_files:
  assumes "language_version \<in> {''EN_DE'', ''DE_EN'', ''BOTH''}"
    and "\<forall>r \<in> set dataframe. speaks client voice r"
  shows "fst (generate_audio client dataframe language_version w) = None \<and>
         mp3_files (snd (generate_audio client dataframe language_version w)) =
           mp3_files w @ concat (map (artifacts voice language_version) (iterrows dataframe))"
proof -
  obtain process_orders where po: "get_orders language_version = Inr process_orders"
    using assms(1) by (auto simp: get_orders_def)
  have "\<forall>ir \<in> set (iterrows dataframe). speaks client voice (snd ir)"
    using assms(2) snd_in_iterrows by blast
  from audio_rows_artifacts [OF this assms(1) po, of w] po show ?thesis
    by (auto simp: generate_audio_def)
qed

lemma length_artifacts:
  "length (artifacts voice language_version ir) = (if language_version = ''BOTH'' then 2 else 1)"
  by (simp add: artifacts_def)

lemma length_concat_artifacts:
  "length (concat (map (artifacts voice language_version) rows)) =
     (if language_version = ''BOTH'' then 2 * length rows else length rows)"
  by (induction rows) (simp_all add: length_artifacts)

section \<open>Audio synthesis: the claims\<close>

text \<open>
  C8. When the speech service answers the four fields of every row, synthesis returns
  normally and writes, for every row in order, exactly two audio files under the mode BOTH
  (one for each ordering of the same four fields, under two different names) and exactly
  one under a single mode. Each file is the concatenation of four clips in the fixed order
  of its mode, each clip being the narration of the field with 1500 milliseconds of
  silence before and after.
\<close>

theorem synthesis_output_shape:
  assumes "language_version \<in> {''EN_DE'', ''DE_EN'', ''BOTH''}"
    and "\<forall>r \<in> set dataframe. speaks client voice r"
  shows "fst (generate_audio client dataframe language_version w) = None \<and>
         mp3_files (snd (generate_audio client dataframe language_version w)) =
           mp3_files w @ concat (map (artifacts voice language_version) (iterrows dataframe)) \<and>
         length (mp3_files (snd (generate_audio client dataframe language_version w))) =
           length (mp3_files w) +
           (if language_version = ''BOTH'' then 2 * length dataframe else length dataframe) \<and>
         (\<forall>ir \<in> set (iterrows dataframe).
            artifacts voice language_version ir =
              (if language_version = ''BOTH''
               then [(mp3_name (fst ir) 0,
                      padded (voice (english_word (snd ir)) ''en-US'') @
                      padded (voice (german_word (snd ir)) ''de-DE'') @
                      padded (voice (english_sentence (snd ir)) ''en-US'') @
                      padded (voice (german_sentence (snd ir)) ''de-DE'')),
                     (mp3_name (fst ir) 1,
                      padded (voice (german_word (snd ir)) ''de-DE'') @
                      padded (voice (english_word (snd ir)) ''en-US'') @
                      padded (voice (german_sentence (snd ir)) ''de-DE'') @
                      padded (voice (english_sentence (snd ir)) ''en-US''))]
               else if language_version = ''EN_DE''
               then [(mp3_name (fst ir) 0,
                      padded (voice (english_word (snd ir)) ''en-US'') @
                      padded (voice (german_word (snd ir)) ''de-DE'') @
                      padded (voice (english_sentence (snd ir)) ''en-US'') @
                      padded (voice (german_sentence (snd ir)) ''de-DE''))]
               else [(mp3_name (fst ir) 0,
                      padded (voice (german_word (snd ir)) ''de-DE'') @
                      padded (voice (english_word (snd ir)) ''en-US'') @
                      padded (voice (german_sentence (snd ir)) ''de-DE'') @
                      padded (voice (english_sentence (snd ir)) ''en-US''))]) \<and>
            mp3_name (fst ir) 0 \<noteq> mp3_name (fst ir) 1)"
proof -
  note files = generate_audio_files [OF assms, of w]
  have "length (mp3_files (snd (generate_audio client dataframe language_version w))) =
        length (mp3_files w) +
        (if language_version = ''BOTH'' then 2 * length dataframe else length dataframe)"
    using files by (simp add: length_concat_artifacts length_iterrows)
  moreover have "artifacts voice language_version ir =
      (if language_version = ''BOTH''
       then [(mp3_name (fst ir) 0, artifact_en_de voice (snd ir)),
             (mp3_name (fst ir) 1, artifact_de_en voice (snd ir))]
       else if language_version = ''EN_DE''
       then [(mp3_name (fst ir) 0, artifact_en_de voice (snd ir))]
       else [(mp3_name (fst ir) 0, artifact_de_en voice (snd ir))])" for ir
    by (simp add: artifacts_def)
  ultimately show ?thesis
    using files by (simp add: artifact_en_de_def artifact_de_en_def mp3_name_index_differs)
qed

theorem synthesis_output_shape_witness:
  "speaks (\<lambda>t l. Inr (beep t l)) beep (entry ''A'' ''a'') \<and>
   generate_audio (\<lambda>t l. Inr (beep t l)) [entry ''A'' ''a''] ''BOTH'' no_log =
     (None, snd (generate_audio (\<lambda>t l. Inr (beep t l)) [entry ''A'' ''a''] ''BOTH'' no_log)) \<and>
   mp3_files (snd (generate_audio (\<lambda>t l. Inr (beep t l)) [entry ''A'' ''a''] ''BOTH'' no_log)) =
     [(''0_0.mp3'', padded [Voiced 1] @ padded [Voiced 1] @ padded [Voiced 2] @ padded [Voiced 2]),
      (''0_1.mp3'', padded [Voiced 1] @ padded [Voiced 1] @ padded [Voiced 2] @ padded [Voiced 2])] \<and>
   mp3_files (snd (generate_audio (\<lambda>t l. Inr (beep t l)) [entry ''A'' ''a''] ''EN_DE'' no_log)) =
     [(''0_0.mp3'', padded [Voiced 1] @ padded [Voiced 1] @ padded [Voiced 2] @ padded [Voiced 2])]"
proof -
  have sp: "\<forall>r \<in> set [entry ''A'' ''a'']. speaks (\<lambda>t l. Inr (beep t l)) beep r"
    by (simp add: speaks_def)
  have m1: "''BOTH'' \<in> {''EN_DE'', ''DE_EN'', ''BOTH''}" by simp
  have m2: "''EN_DE'' \<in> {''EN_DE'', ''DE_EN'', ''BOTH''}" by simp
  show ?thesis
    using synthesis_output_shape [OF m1 sp, of no_log] synthesis_output_shape [OF m2 sp, of no_log]
      sp
    by (simp add: iterrows_single artifacts_def artifact_en_de_def artifact_de_en_def mp3_name_0_0
        mp3_name_0_1 no_log_def entry_def beep_def prod_eq_iff numeral_2_eq_2)
qed

text \<open>
  C2. The code at the failing input: for one row in the mode DE\_EN the synthesis writes
  the file with order index 0 and no other, and the video assembly, run on a disk that
  holds what the synthesis wrote, asks for the file with order index 1 and stops with the
  error of the missing file.
\<close>

theorem audio_key_mismatch_de_en:
  "map fst (mp3_files (snd (generate_audio (\<lambda>t l. Inr (beep t l)) [entry ''A'' ''a''] ''DE_EN''
      no_log))) = [''0_0.mp3''] \<and>
   generate_video (\<lambda>t. True)
     (disk_after Map.empty
        (mp3_files (snd (generate_audio (\<lambda>t l. Inr (beep t l)) [entry ''A'' ''a''] ''DE_EN''
           no_log))))
     [entry ''A'' ''a''] 1 ''4slides'' ''DE_EN'' = (Some OSError_AudioFileClip, [])"
proof -
  have sp: "\<forall>r \<in> set [entry ''A'' ''a'']. speaks (\<lambda>t l. Inr (beep t l)) beep r"
    by (simp add: speaks_def)
  have m: "''DE_EN'' \<in> {''EN_DE'', ''DE_EN'', ''BOTH''}" by simp
  have files: "mp3_files (snd (generate_audio (\<lambda>t l. Inr (beep t l)) [entry ''A'' ''a'']
      ''DE_EN'' no_log)) = [(''0_0.mp3'', artifact_de_en beep (entry ''A'' ''a''))]"
    using generate_audio_files [OF m sp, of no_log]
    by (simp add: iterrows_single artifacts_def mp3_name_0_0 no_log_def)
  show ?thesis
    unfolding files
    by (simp add: generate_video_def video_orders_def iterrows_single assemble_row_def AudioFileClip_def
        mp3_name_0_1)
qed

section \<open>Video assembly: file names and arguments\<close>

text \<open>
  C3. The code at the failing input: five rows over the words A, A, B, C, D with three
  words per video. The run writes two batches, and both go to the file numbered 2: no
  batch is numbered 1 and the second batch replaces the first.
\<close>

theorem batch_numbers_repeat:
  "fst (generate_video (\<lambda>t. True) disk5 rows5 3 ''2slides'' ''EN_DE'') = None \<and>
   map fst (snd (generate_video (\<lambda>t. True) disk5 rows5 3 ''2slides'' ''EN_DE'')) =
     [''combined_video_2_2slides_EN_DE.mp4'', ''combined_video_2_2slides_EN_DE.mp4'']"
  by code_simp

text \<open>
  C10, as stated, fails: with an empty table and a slides format that is neither
  \<^verbatim>\<open>2slides\<close> nor \<^verbatim>\<open>4slides\<close>, the video assembly returns normally.
\<close>

theorem invalid_slides_format_counterexample:
  "generate_video (\<lambda>t. True) disk5 [] 3 ''3slides'' ''EN_DE'' = (None, [])"
  by (simp add: generate_video_def video_orders_def iterrows_def)

text \<open>
  C10, amended. Synthesis with a language mode other than EN\_DE, DE\_EN or BOTH raises
  ValueError with no request sent and no audio file written. Video assembly with a
  language version other than EN\_DE or DE\_EN raises ValueError with no video file
  written. Video assembly with a slides format other than \<^verbatim>\<open>2slides\<close> or
  \<^verbatim>\<open>4slides\<close> writes no video file; with a valid language version it raises
  ValueError when the table has a row and the audio file of its first row is on the disk,
  it raises the error of the missing file when that file is absent, and it returns
  normally when the table is empty.
\<close>

theorem invalid_arguments:
  "(language_mode \<notin> {''EN_DE'', ''DE_EN'', ''BOTH''} \<longrightarrow>
      generate_audio client dataframe language_mode w = (Some ValueError, w)) \<and>
   (language_version \<notin> {''EN_DE'', ''DE_EN''} \<longrightarrow>
      generate_video render disk dataframe words_per_video slides_format language_version
        = (Some ValueError, [])) \<and>
   (slides_format \<notin> {''2slides'', ''4slides''} \<longrightarrow>
      snd (generate_video render disk dataframe words_per_video slides_format language_version)
        = [] \<and>
      (language_version \<in> {''EN_DE'', ''DE_EN''} \<and> dataframe \<noteq> [] \<and>
       disk (mp3_name 0 (if language_version = ''EN_DE'' then 0 else 1)) \<noteq> None \<longrightarrow>
         fst (generate_video render disk dataframe words_per_video slides_format
                language_version) = Some ValueError) \<and>
      (language_version \<in> {''EN_DE'', ''DE_EN''} \<and> dataframe \<noteq> [] \<and>
       disk (mp3_name 0 (if language_version = ''EN_DE'' then 0 else 1)) = None \<longrightarrow>
         fst (generate_video render disk dataframe words_per_video slides_format
                language_version) = Some OSError_AudioFileClip) \<and>
      (language_version \<in> {''EN_DE'', ''DE_EN''} \<and> dataframe = [] \<longrightarrow>
         fst (generate_video render disk dataframe words_per_video slides_format
                language_version) = None))"
proof -
  have audio: "generate_audio client dataframe language_mode w = (Some ValueError, w)"
    if "language_mode \<notin> {''EN_DE'', ''DE_EN'', ''BOTH''}"
    using that by (simp add: generate_audio_def get_orders_def)
  have version: "generate_video render disk dataframe words_per_video slides_format
        language_version = (Some ValueError, [])"
    if "language_version \<notin> {''EN_DE'', ''DE_EN''}"
    using that by (simp add: generate_video_def video_orders_def)
  have format: "assemble_row render disk slides_format language_version order i r =
      (case disk (mp3_name i (if language_version = ''EN_DE'' then 0 else 1)) of
         None \<Rightarrow> Inl OSError_AudioFileClip
       | Some audio \<Rightarrow> Inl ValueError)"
    if "slides_format \<notin> {''2slides'', ''4slides''}" for order i r
    using that
    by (simp add: assemble_row_def AudioFileClip_def slide_clips_def split: option.splits)
  have rows: "iterrows dataframe = (0, hd dataframe) # List.enumerate 1 (tl dataframe)"
    if "dataframe \<noteq> []"
    using that by (cases dataframe) (simp_all add: iterrows_def enumerate_simps)
  have slides: "generate_video render disk dataframe words_per_video slides_format
        language_version =
      (if language_version \<notin> {''EN_DE'', ''DE_EN''} then (Some ValueError, [])
       else if dataframe = [] then (None, [])
       else (case disk (mp3_name 0 (if language_version = ''EN_DE'' then 0 else 1)) of
               None \<Rightarrow> (Some OSError_AudioFileClip, [])
             | Some audio \<Rightarrow> (Some ValueError, [])))"
    if bad: "slides_format \<notin> {''2slides'', ''4slides''}"
  proof (cases "language_version \<in> {''EN_DE'', ''DE_EN''}")
    case False
    then show ?thesis using version by simp
  next
    case True
    then obtain order where order: "video_orders language_version = Some order"
      by (auto simp: video_orders_def)
    show ?thesis
    proof (cases "dataframe = []")
      case True
      then show ?thesis
        using order \<open>language_version \<in> _\<close> by (simp add: generate_video_def iterrows_def)
    next
      case False
      show ?thesis
        using order \<open>language_version \<in> _\<close> False
        by (simp add: generate_video_def rows [OF False] format [OF bad] split: option.splits)
    qed
  qed
  show ?thesis
    using audio version slides by (auto split: option.splits)
qed

theorem invalid_arguments_witness:
  "generate_audio (\<lambda>t l. Inr (beep t l)) rows5 ''EN'' no_log = (Some ValueError, no_log) \<and>
   generate_video (\<lambda>t. True) disk5 rows5 3 ''2slides'' ''BOTH'' = (Some ValueError, []) \<and>
   generate_video (\<lambda>t. True) disk5 rows5 3 ''3slides'' ''EN_DE'' = (Some ValueError, []) \<and>
   generate_video (\<lambda>t. True) disk5 rows5 3 ''3slides'' ''DE_EN''
     = (Some OSError_AudioFileClip, []) \<and>
   generate_video (\<lambda>t. True) disk5 [] 3 ''3slides'' ''DE_EN'' = (None, [])"
proof -
  have ne: "rows5 \<noteq> []" by (simp add: rows5_def)
  have d0: "disk5 ''0_0.mp3'' \<noteq> None" "disk5 ''0_1.mp3'' = None"
    by (simp_all add: disk5_def)
  show ?thesis
    using invalid_arguments [of "''EN''" "\<lambda>t l. Inr (beep t l)" rows5 no_log "''BOTH''"
        "\<lambda>t. True" disk5 3 "''2slides''"]
      invalid_arguments [of "''EN''" "\<lambda>t l. Inr (beep t l)" rows5 no_log "''EN_DE''"
        "\<lambda>t. True" disk5 3 "''3slides''"]
      invalid_arguments [of "''EN''" "\<lambda>t l. Inr (beep t l)" rows5 no_log "''DE_EN''"
        "\<lambda>t. True" disk5 3 "''3slides''"]
      invalid_arguments [of "''EN''" "\<lambda>t l. Inr (beep t l)" "[]" no_log "''DE_EN''"
        "\<lambda>t. True" disk5 3 "''3slides''"]
      ne d0
    by (simp add: mp3_name_0_0 mp3_name_0_1 prod_eq_iff)
qed

section \<open>Video assembly: overlays\<close>

lemma video_orders_cases:
  assumes "video_orders language_version = Some order"
  shows "order = [(''en-US'', english_word), (''de-DE'', german_word),
                  (''en-US'', english_sentence), (''de-DE'', german_sentence)] \<or>
         order = [(''de-DE'', german_word), (''en-US'', english_word),
                  (''de-DE'', german_sentence), (''en-US'', english_sentence)]"
  using assms by (auto simp: video_orders_def split: if_splits)

text \<open>
  C7. For a row and its audio clip, in the order of either language version: the format
  \<^verbatim>\<open>4slides\<close> gives, when the four field texts can be rendered, exactly four text
  clips, one for each field in the order of narration, each lasting a quarter of the
  audio's duration; the format \<^verbatim>\<open>2slides\<close> gives, when the two stacked texts can be
  rendered, exactly two clips, each lasting half of it. In both formats the durations of
  the clips add up to the duration of the audio.
\<close>

theorem overlay_count_and_duration:
  assumes "video_orders language_version = Some order"
  shows "((\<forall>(lang, column) \<in> set order. render (column r)) \<longrightarrow>
            (\<exists>clips. slide_clips render ''4slides'' order r audio = Inr clips)) \<and>
         (slide_clips render ''4slides'' order r audio = Inr clips4 \<longrightarrow>
            length clips4 = 4 \<and>
            map clip_text clips4 = map (\<lambda>(lang, column). column r) order \<and>
            map clip_duration clips4 = replicate 4 (duration audio / 4) \<and>
            sum_list (map clip_duration clips4) = duration audio) \<and>
         (render (snd (order ! 0) r @ [CHR 0x0A] @ snd (order ! 1) r) \<and>
          render (snd (order ! 2) r @ [CHR 0x0A] @ snd (order ! 3) r) \<longrightarrow>
            (\<exists>clips. slide_clips render ''2slides'' order r audio = Inr clips)) \<and>
         (slide_clips render ''2slides'' order r audio = Inr clips2 \<longrightarrow>
            length clips2 = 2 \<and>
            map clip_text clips2 = [snd (order ! 0) r @ [CHR 0x0A] @ snd (order ! 1) r,
                                    snd (order ! 2) r @ [CHR 0x0A] @ snd (order ! 3) r] \<and>
            map clip_duration clips2 = replicate 2 (duration audio / 2) \<and>
            sum_list (map clip_duration clips2) = duration audio)"
  using video_orders_cases [OF assms]
  by (auto simp: slide_clips_def generate_text_clip_def Let_def numeral_eq_Suc
      split: if_splits sum.splits)

theorem overlay_count_and_duration_witness:
  "slide_clips (\<lambda>t. True) ''4slides'' en_de (entry ''A'' ''a'') [Voiced 0, Voiced 0] =
     Inr [\<lparr>clip_text = ''a'', clip_duration = 1 / 2000\<rparr>,
          \<lparr>clip_text = ''A'', clip_duration = 1 / 2000\<rparr>,
          \<lparr>clip_text = ''a.'', clip_duration = 1 / 2000\<rparr>,
          \<lparr>clip_text = ''A.'', clip_duration = 1 / 2000\<rparr>] \<and>
   duration [Voiced 0, Voiced 0] = 4 * (1 / 2000) \<and>
   length (snd (seg2 0 (entry ''A'' ''a''))) = 2 \<and>
   slide_clips (\<lambda>t. True) ''2slides'' en_de (entry ''A'' ''a'') [Voiced 0, Voiced 0] =
     Inr (snd (seg2 0 (entry ''A'' ''a'')))"
proof -
  have o: "video_orders ''EN_DE'' = Some en_de"
    by (simp add: video_orders_def en_de_def)
  have four: "slide_clips (\<lambda>t. True) ''4slides'' en_de (entry ''A'' ''a'') [Voiced 0, Voiced 0] =
     Inr [\<lparr>clip_text = ''a'', clip_duration = 1 / 2000\<rparr>,
          \<lparr>clip_text = ''A'', clip_duration = 1 / 2000\<rparr>,
          \<lparr>clip_text = ''a.'', clip_duration = 1 / 2000\<rparr>,
          \<lparr>clip_text = ''A.'', clip_duration = 1 / 2000\<rparr>]"
    by (simp add: slide_clips_def en_de_def generate_text_clip_def entry_def duration_def)
  have two: "slide_clips (\<lambda>t. True) ''2slides'' en_de (entry ''A'' ''a'') [Voiced 0, Voiced 0] =
     Inr (snd (seg2 0 (entry ''A'' ''a'')))"
    by (simp add: slide_clips_def en_de_def generate_text_clip_def entry_def duration_def
        seg2_def)
  from overlay_count_and_duration [OF o, of "\<lambda>t. True" "entry ''A'' ''a''"
      "[Voiced 0, Voiced 0]" _ "snd (seg2 0 (entry ''A'' ''a''))"] four two
  show ?thesis
    by (simp add: duration_def)
qed

section \<open>Video assembly: batching lemmas\<close>

lemma distinct_words_snoc:
  "distinct_words (cur @ [x]) =
     (if german_word (snd x) \<in> set (map (german_word \<circ> snd) cur) then distinct_words cur
      else Suc (distinct_words cur))"
  by (simp add: distinct_words_def length_remdups_card_conv card_insert_if)

lemma distinct_words_snoc_pos: "0 < distinct_words (cur @ [x])"
  by (simp add: distinct_words_def length_remdups_card_conv card_gt_0_iff)


lemma empty_state_for: "empty_state = state_for seg []"
  by (simp add: empty_state_def state_for_def distinct_words_def)

lemma video_rows_step:
  assumes "assemble_row render disk slides_format language_version order i r = Inr (seg i r)"
  shows "video_rows render disk w slides_format language_version order n ((i, r) # rest)
           (state_for seg cur) written =
     (if int (distinct_words (cur @ [(i, r)])) = w \<or> int i = int n - 1 then
        (if w = 0 then (Some ZeroDivisionError, written)
         else video_rows render disk w slides_format language_version order n rest
                (state_for seg [])
                (written @ [batch_file seg w slides_format language_version (cur @ [(i, r)])]))
      else video_rows render disk w slides_format language_version order n rest
             (state_for seg (cur @ [(i, r)])) written)"
proof -
  obtain audio clips where seg: "seg i r = (audio, clips)" by (cases "seg i r")
  have nil: "distinct_words [] = 0" by (simp add: distinct_words_def)
  show ?thesis
    by (subst video_rows.simps)
      (simp add: assms seg Let_def state_for_def batch_file_def batch_video_def empty_state_def
        distinct_words_snoc insert_absorb nil add.commute)
qed

lemma video_rows_prefix:
  assumes "\<forall>(i, r) \<in> set pre.
      assemble_row render disk slides_format language_version order i r = Inr (seg i r) \<and>
      int i \<noteq> int n - 1"
  shows "video_rows render disk w slides_format language_version order n (pre @ rest)
           (state_for seg cur) written =
         video_rows render disk w slides_format language_version order n rest
           (state_for seg (open_rows w cur pre))
           (written @ map (batch_file seg w slides_format language_version)
                        (closed_batches w cur pre))"
  using assms
proof (induction pre arbitrary: cur written)
  case Nil
  then show ?case by simp
next
  case (Cons x pre)
  obtain i r where x: "x = (i, r)" by (cases x)
  from Cons.prems x
  have here: "assemble_row render disk slides_format language_version order i r = Inr (seg i r)"
    and not_last: "int i \<noteq> int n - 1"
    and rest: "\<forall>(i, r) \<in> set pre.
      assemble_row render disk slides_format language_version order i r = Inr (seg i r) \<and>
      int i \<noteq> int n - 1"
    by auto
  show ?case
  proof (cases "int (distinct_words (cur @ [(i, r)])) = w")
    case True
    then have "w \<noteq> 0"
      using distinct_words_snoc_pos [of cur "(i, r)"] by linarith
    with True show ?thesis
      using Cons.IH [OF rest, of "[]" "written @
          [batch_file seg w slides_format language_version (cur @ [(i, r)])]"]
      by (simp add: x video_rows_step [where seg = seg, OF here] del: video_rows.simps)
  next
    case False
    then show ?thesis
      using Cons.IH [OF rest, of "cur @ [(i, r)]" written] not_last
      by (simp add: x video_rows_step [where seg = seg, OF here] del: video_rows.simps)
  qed
qed







lemma iterrows_append_Cons:
  "iterrows (pre @ r # post) =
     iterrows pre @ (length pre, r) # List.enumerate (Suc (length pre)) post"
  by (simp add: iterrows_def enumerate_append_eq)

lemma fst_iterrows_less: "(i, r) \<in> set (iterrows xs) \<Longrightarrow> i < length xs"
  by (auto simp: iterrows_def in_set_enumerate_eq)


lemma generate_video_failure:
  assumes "video_orders language_version = Some order"
    and "\<forall>(i, r) \<in> set (iterrows pre).
      assemble_row render disk slides_format language_version order i r = Inr (seg i r)"
    and "assemble_row render disk slides_format language_version order (length pre) r = Inl e"
  shows "generate_video render disk (pre @ r # post) words_per_video slides_format
           language_version =
     (Some e, map (batch_file seg words_per_video slides_format language_version)
                (closed_batches words_per_video [] (iterrows pre)))"
proof -
  let ?n = "length (pre @ r # post)"
  have pre_ok: "\<forall>(i, r) \<in> set (iterrows pre).
      assemble_row render disk slides_format language_version order i r = Inr (seg i r) \<and>
      int i \<noteq> int ?n - 1"
    using assms(2) fst_iterrows_less [of _ _ pre] by fastforce
  let ?bf = "batch_file seg words_per_video slides_format language_version"
  have "generate_video render disk (pre @ r # post) words_per_video slides_format
        language_version =
      video_rows render disk words_per_video slides_format language_version order ?n
        (iterrows pre @ (length pre, r) # List.enumerate (Suc (length pre)) post)
        (state_for seg []) []"
    by (simp only: generate_video_def assms(1) option.case iterrows_append_Cons
        empty_state_for [of seg])
  also have "\<dots> =
      video_rows render disk words_per_video slides_format language_version order ?n
        ((length pre, r) # List.enumerate (Suc (length pre)) post)
        (state_for seg (open_rows words_per_video [] (iterrows pre)))
        ([] @ map ?bf (closed_batches words_per_video [] (iterrows pre)))"
    by (rule video_rows_prefix [OF pre_ok])
  also have "\<dots> = (Some e, map ?bf (closed_batches words_per_video [] (iterrows pre)))"
    by (simp add: assms(3))
  finally show ?thesis .
qed

section \<open>Video assembly: the batching claims\<close>



text \<open>
  C9, as stated, fails: the text of the first row cannot be rendered, the second row
  assembles without error, and the run stops at the first row with the renderer's error,
  no video written.
\<close>

theorem rendering_failure_counterexample:
  "assemble_row no_x disk5 ''4slides'' ''EN_DE'' en_de 1 (entry ''A'' ''a'')
     = Inr (seg4 1 (entry ''A'' ''a'')) \<and>
   generate_video no_x disk5 [entry ''X'' ''x'', entry ''A'' ''a''] 1 ''4slides'' ''EN_DE''
     = (Some OSError_TextClip, [])"
  by code_simp

text \<open>
  C9, amended. The video assembly catches nothing. When the rows before some row assemble
  and that row does not (its text cannot be rendered, or its audio file cannot be opened),
  the run stops at that row with the row's error: the videos written are those of the
  batches that reached their count within the rows before it, and neither that row nor
  any later row, whatever it is, is assembled into a video.
\<close>

theorem failure_stops_run:
  assumes "video_orders language_version = Some order"
    and "\<forall>(i, r) \<in> set (iterrows pre).
      assemble_row render disk slides_format language_version order i r = Inr (seg i r)"
    and "assemble_row render disk slides_format language_version order (length pre) r = Inl e"
  shows "generate_video render disk (pre @ r # post) words_per_video slides_format
           language_version =
     (Some e, map (batch_file seg words_per_video slides_format language_version)
                (closed_batches words_per_video [] (iterrows pre)))"
  by (rule generate_video_failure [OF assms])

theorem failure_stops_run_witness:
  "generate_video no_x disk5 [entry ''A'' ''a'', entry ''X'' ''x'', entry ''B'' ''b''] 1
     ''4slides'' ''EN_DE'' =
     (Some OSError_TextClip,
      [(''combined_video_1_4slides_EN_DE.mp4'', batch_video seg4 [(0, entry ''A'' ''a'')])])"
proof -
  have o: "video_orders ''EN_DE'' = Some en_de"
    by (simp add: video_orders_def en_de_def)
  have ok: "\<forall>(i, r) \<in> set (iterrows [entry ''A'' ''a'']).
      assemble_row no_x disk5 ''4slides'' ''EN_DE'' en_de i r = Inr (seg4 i r)"
    by code_simp
  have bad: "assemble_row no_x disk5 ''4slides'' ''EN_DE'' en_de (length [entry ''A'' ''a''])
      (entry ''X'' ''x'') = Inl OSError_TextClip"
    by code_simp
  have closed: "map (batch_file seg4 1 ''4slides'' ''EN_DE'')
      (closed_batches 1 [] (iterrows [entry ''A'' ''a''])) =
      [(''combined_video_1_4slides_EN_DE.mp4'', batch_video seg4 [(0, entry ''A'' ''a'')])]"
    by code_simp
  show ?thesis
    using failure_stops_run [OF o ok bad, of "[entry ''B'' ''b'']" 1] closed by simp
qed

end
